theory Spec2Isabelle
  imports Complex_Main "HOL-Library.Char_ord" "HOL-Library.List_Lexorder" "HOL-Library.Multiset"
begin

section \<open>Fade engine (utils/audioFade)\<close>

text \<open>
  JavaScript numbers are modelled as rationals: every formula below is the source's own
  expression, evaluated exactly. \<open>Date.now()\<close> readings are integers (milliseconds).
\<close>

definition FADE_DURATION_MS :: rat where
  "FADE_DURATION_MS = 200"

text \<open>\<open>progress = Math.min(elapsed / duration, 1)\<close>\<close>

definition fadeProgress :: "int \<Rightarrow> rat" where
  "fadeProgress elapsed = min (of_int elapsed / FADE_DURATION_MS) 1"

text \<open>\<open>currentVolume = startVolume + (endVolume - startVolume) * progress\<close>\<close>

definition currentVolume :: "rat \<Rightarrow> rat \<Rightarrow> int \<Rightarrow> rat" where
  "currentVolume startVolume endVolume elapsed =
     startVolume + (endVolume - startVolume) * fadeProgress elapsed"

text \<open>
  The interval callback of \<open>fadeIn\<close>/\<open>fadeOut\<close>, run over the clock readings of the
  successive ticks. The result is the sequence of values assigned to \<open>audio.volume\<close>, in
  order, and whether the promise was resolved. A tick with \<open>progress >= 1\<close> writes the
  interpolated value, clears the interval, writes \<open>endVolume\<close> and resolves; no later tick
  runs.
\<close>

fun fadeInterval :: "rat \<Rightarrow> rat \<Rightarrow> int \<Rightarrow> int list \<Rightarrow> rat list \<times> bool" where
  "fadeInterval startVolume endVolume startTime [] = ([], False)"
| "fadeInterval startVolume endVolume startTime (now # ticks) =
     (let elapsed = now - startTime;
          progress = fadeProgress elapsed;
          cur = currentVolume startVolume endVolume elapsed
      in if progress \<ge> 1 then ([cur, endVolume], True)
         else (let (ws, resolved) = fadeInterval startVolume endVolume startTime ticks
               in (cur # ws, resolved)))"

text \<open>\<open>fadeIn(audio, targetVolume)\<close>: from 0 to the target.\<close>

definition fadeIn :: "rat \<Rightarrow> int \<Rightarrow> int list \<Rightarrow> rat list \<times> bool" where
  "fadeIn targetVolume startTime ticks = fadeInterval 0 targetVolume startTime ticks"

text \<open>\<open>fadeOut(audio)\<close>: from the element's volume at the call to 0.\<close>

definition fadeOut :: "rat \<Rightarrow> int \<Rightarrow> int list \<Rightarrow> rat list \<times> bool" where
  "fadeOut audioVolume startTime ticks = fadeInterval audioVolume 0 startTime ticks"


section \<open>Reading the durable record (getStoredSounds)\<close>

datatype json =
    JNull
  | JBool bool
  | JNumber rat
  | JString string
  | JArray "json list"
  | JObject "(string \<times> json) list"

text \<open>What \<open>localStorage.getItem\<close> and \<open>JSON.parse\<close> may throw; both are caught.\<close>

datatype js_error = SecurityError | SyntaxError

text \<open>JavaScript truthiness of a parsed JSON value.\<close>

fun truthy :: "json \<Rightarrow> bool" where
  "truthy JNull = False"
| "truthy (JBool b) = b"
| "truthy (JNumber n) = (n \<noteq> 0)"
| "truthy (JString s) = (s \<noteq> [])"
| "truthy (JArray xs) = True"
| "truthy (JObject kvs) = True"

text \<open>
  Property access \<open>parsed.name\<close> on a non-null parsed value, for the three names the code
  reads; \<open>None\<close> is \<open>undefined\<close>. Only an object literal can carry them.
\<close>

fun getProp :: "json \<Rightarrow> string \<Rightarrow> json option" where
  "getProp (JObject kvs) name = map_of kvs name"
| "getProp j name = None"

fun isArray :: "json option \<Rightarrow> bool" where
  "isArray (Some (JArray xs)) = True"
| "isArray j = False"

text \<open>\<open>parsed.savedSounds.filter((id): id is string => typeof id === 'string')\<close>\<close>

fun stringsOf :: "json list \<Rightarrow> string list" where
  "stringsOf [] = []"
| "stringsOf (JString s # xs) = s # stringsOf xs"
| "stringsOf (x # xs) = stringsOf xs"

fun arrayItems :: "json option \<Rightarrow> json list" where
  "arrayItems (Some (JArray xs)) = xs"
| "arrayItems j = []"

text \<open>\<open>parsed.metadata && typeof parsed.metadata === 'object' ? parsed.metadata : {}\<close>\<close>

fun metadataOr :: "json option \<Rightarrow> json" where
  "metadataOr (Some (JArray xs)) = JArray xs"
| "metadataOr (Some (JObject kvs)) = JObject kvs"
| "metadataOr j = JObject []"

text \<open>\<open>typeof parsed.masterVolume === 'number' ? parsed.masterVolume : 100\<close>\<close>

fun numberOr :: "json option \<Rightarrow> rat \<Rightarrow> rat" where
  "numberOr (Some (JNumber n)) d = n"
| "numberOr j d = d"

text \<open>
  The interface \<open>SavedSoundsStorage\<close>. The metadata type is a parameter: what is read back
  is the raw parsed value, what is written is the store's table.
\<close>

record 'm SavedSoundsStorage =
  savedSounds :: "string list"
  metadata :: 'm
  storedMasterVolume :: "rat option"

definition defaultStorage :: "json SavedSoundsStorage" where
  "defaultStorage = \<lparr>savedSounds = [], metadata = JObject [], storedMasterVolume = Some 100\<rparr>"

text \<open>
  \<open>getItem\<close> is the outcome of \<open>localStorage.getItem(STORAGE_KEY)\<close> (\<open>Inl\<close>: it threw,
  \<open>Inr None\<close>: \<open>null\<close>); \<open>JSON_parse\<close> is the platform's parser (\<open>Inl\<close>: it threw).
\<close>

definition getStoredSounds ::
  "(string \<Rightarrow> js_error + json) \<Rightarrow> js_error + string option \<Rightarrow> json SavedSoundsStorage" where
  "getStoredSounds JSON_parse getItem =
     (case getItem of
        Inl e \<Rightarrow> defaultStorage
      | Inr None \<Rightarrow> defaultStorage
      | Inr (Some stored) \<Rightarrow>
          if stored = [] then defaultStorage
          else (case JSON_parse stored of
                  Inl e \<Rightarrow> defaultStorage
                | Inr parsed \<Rightarrow>
                    if truthy parsed \<and> isArray (getProp parsed ''savedSounds'')
                    then \<lparr>savedSounds = stringsOf (arrayItems (getProp parsed ''savedSounds'')),
                          metadata = metadataOr (getProp parsed ''metadata''),
                          storedMasterVolume = Some (numberOr (getProp parsed ''masterVolume'') 100)\<rparr>
                    else defaultStorage))"


section \<open>Session store, catalog cache and audio registry\<close>

text \<open>
  Objects that the code shares and mutates in place live in explicit heaps: the
  \<open>HTMLAudioElement\<close>s and the \<open>SavedSound\<close> objects, each addressed by a reference.
  A reference is always valid in JavaScript, so the heaps are total.
\<close>

type_synonym audio_ref = nat
type_synonym sound_ref = nat

record HTMLAudioElement =
  src :: string
  audio_volume :: rat
  loop :: bool
  paused :: bool

record SoundMetadata =
  meta_volume :: "rat option"
  meta_loop :: "bool option"

record Sound =
  sound_id :: string
  sound_name :: string
  sound_url :: string
  sound_category :: "string option"
  sound_type :: "string option"

record SavedSound = Sound +
  audio :: audio_ref
  volume :: "rat option"

text \<open>A JavaScript \<open>Map\<close> with string keys: entries in insertion order, keys distinct.\<close>

type_synonym 'v js_map = "(string \<times> 'v) list"

definition Map_get :: "'v js_map \<Rightarrow> string \<Rightarrow> 'v option" where
  "Map_get m k = map_of m k"

fun Map_set :: "'v js_map \<Rightarrow> string \<Rightarrow> 'v \<Rightarrow> 'v js_map" where
  "Map_set [] k v = [(k, v)]"
| "Map_set ((k', v') # m) k v = (if k' = k then (k, v) # m else (k', v') # Map_set m k v)"

definition Map_delete :: "'v js_map \<Rightarrow> string \<Rightarrow> 'v js_map" where
  "Map_delete m k = filter (\<lambda>(k', v). k' \<noteq> k) m"

text \<open>
  The provider's state as of the latest render (\<open>savedSoundIds\<close>, \<open>masterVolume\<close>,
  \<open>metadataRef.current\<close>, the memoised \<open>savedSoundsMap\<close>) together with the module state
  behind it: the audio registry, the two heaps, the query cache of the \<open>savedSounds\<close>
  queries (keyed by the sorted ids) and the durable record. \<open>storageWritable\<close> says
  whether \<open>localStorage.setItem\<close> succeeds; when it throws the error is caught and logged.
\<close>

record Store =
  savedSoundIds :: "string list"
  masterVolume :: rat
  metadataRef :: "string \<rightharpoonup> SoundMetadata"
  savedSoundsMap :: "sound_ref js_map"
  audioElementRegistry :: "string \<rightharpoonup> audio_ref"
  audios :: "audio_ref \<Rightarrow> HTMLAudioElement"
  nextAudio :: audio_ref
  sounds :: "sound_ref \<Rightarrow> SavedSound"
  nextSound :: sound_ref
  queryCache :: "string list \<rightharpoonup> sound_ref js_map"
  localStorage :: "(string \<rightharpoonup> SoundMetadata) SavedSoundsStorage option"
  storageWritable :: bool

text \<open>\<open>x ?? d\<close>\<close>

definition nullish :: "'a option \<Rightarrow> 'a \<Rightarrow> 'a" where
  "nullish x d = (case x of None \<Rightarrow> d | Some v \<Rightarrow> v)"

text \<open>
  \<open>[...ids].sort((a, b) => a.localeCompare(b))\<close>. The collation is rendered as the
  lexicographic order on characters; the code uses the sorted list only as a cache key.
\<close>

definition sortedIds :: "string list \<Rightarrow> string list" where
  "sortedIds ids = sort ids"

text \<open>Assignments to fields of heap objects.\<close>

definition set_audio_volume :: "audio_ref \<Rightarrow> rat \<Rightarrow> Store \<Rightarrow> Store" where
  "set_audio_volume a v s = s\<lparr>audios := (audios s)(a := (audios s a)\<lparr>audio_volume := v\<rparr>)\<rparr>"

definition set_audio_loop :: "audio_ref \<Rightarrow> bool \<Rightarrow> Store \<Rightarrow> Store" where
  "set_audio_loop a l s = s\<lparr>audios := (audios s)(a := (audios s a)\<lparr>loop := l\<rparr>)\<rparr>"

definition pause :: "audio_ref \<Rightarrow> Store \<Rightarrow> Store" where
  "pause a s = s\<lparr>audios := (audios s)(a := (audios s a)\<lparr>paused := True\<rparr>)\<rparr>"

definition set_sound_volume :: "sound_ref \<Rightarrow> rat \<Rightarrow> Store \<Rightarrow> Store" where
  "set_sound_volume r v s = s\<lparr>sounds := (sounds s)(r := (sounds s r)\<lparr>volume := Some v\<rparr>)\<rparr>"

text \<open>\<open>new Audio(url)\<close>: a fresh element bound to \<open>url\<close>, paused, at full volume.\<close>

definition new_Audio :: "string \<Rightarrow> Store \<Rightarrow> audio_ref \<times> Store" where
  "new_Audio url s =
     (nextAudio s,
      s\<lparr>audios := (audios s)(nextAudio s :=
            \<lparr>src = url, audio_volume = 1, loop = False, paused = True\<rparr>),
        nextAudio := Suc (nextAudio s)\<rparr>)"

definition registry_set :: "string \<Rightarrow> audio_ref \<Rightarrow> Store \<Rightarrow> Store" where
  "registry_set soundId a s = s\<lparr>audioElementRegistry := (audioElementRegistry s)(soundId \<mapsto> a)\<rparr>"

definition getOrCreateAudioElement :: "string \<Rightarrow> string \<Rightarrow> Store \<Rightarrow> audio_ref \<times> Store" where
  "getOrCreateAudioElement soundId url s =
     (case audioElementRegistry s soundId of
        None \<Rightarrow>
          (let (a, s1) = new_Audio url s
           in (a, registry_set soundId a s1))
      | Some a0 \<Rightarrow>
          if src (audios s a0) \<noteq> url
          then (let s1 = pause a0 s;
                    (a, s2) = new_Audio url s1
                in (a, registry_set soundId a s2))
          else (a0, s))"

text \<open>\<open>client.getQueryData(['savedSounds', key])\<close> and \<open>client.setQueryData\<close>.\<close>

definition getQueryData :: "string list \<Rightarrow> Store \<Rightarrow> sound_ref js_map option" where
  "getQueryData key s = queryCache s key"

definition setQueryData :: "string list \<Rightarrow> sound_ref js_map \<Rightarrow> Store \<Rightarrow> Store" where
  "setQueryData key m s = s\<lparr>queryCache := (queryCache s)(key \<mapsto> m)\<rparr>"

definition addSoundToCachedMap :: "Sound \<Rightarrow> string list \<Rightarrow> SoundMetadata \<Rightarrow> Store \<Rightarrow> Store" where
  "addSoundToCachedMap sound currentIds mdata s =
     (let newIds = currentIds @ [sound_id sound];
          newSortedIds = sortedIds newIds;
          currentSortedIds = sortedIds currentIds;
          currentMap = nullish (getQueryData currentSortedIds s) [];
          existingSound = Map_get currentMap (sound_id sound);
          (a, vol, lp, s1) =
            (case existingSound of
               Some r \<Rightarrow>
                 (audio (sounds s r),
                  nullish (meta_volume mdata) (nullish (volume (sounds s r)) 100),
                  nullish (meta_loop mdata) (loop (audios s (audio (sounds s r)))),
                  s)
             | None \<Rightarrow>
                 (let (a', s') = getOrCreateAudioElement (sound_id sound) (sound_url sound) s
                  in (a', nullish (meta_volume mdata) 100, nullish (meta_loop mdata) False, s')));
          s2 = set_audio_volume a (vol / 100) s1;
          s3 = set_audio_loop a lp s2;
          r' = nextSound s3;
          s4 = s3\<lparr>sounds := (sounds s3)(r' :=
                   \<lparr>sound_id = sound_id sound, sound_name = sound_name sound,
                    sound_url = sound_url sound,
                    sound_category = Some (nullish (sound_category sound) []),
                    sound_type = Some (nullish (sound_type sound) []),
                    audio = a, volume = Some vol\<rparr>),
                 nextSound := Suc r'\<rparr>;
          newMap = Map_set currentMap (sound_id sound) r';
          s5 = setQueryData newSortedIds newMap s4
      in if currentIds \<noteq> [] then setQueryData currentSortedIds newMap s5 else s5)"

definition removeSoundFromCachedMap :: "string \<Rightarrow> string list \<Rightarrow> Store \<Rightarrow> Store" where
  "removeSoundFromCachedMap soundId currentIds s =
     (let s1 = (case audioElementRegistry s soundId of
                  Some a \<Rightarrow> pause a s
                | None \<Rightarrow> s);
          newIds = filter (\<lambda>i. i \<noteq> soundId) currentIds;
          newSortedIds = sortedIds newIds;
          currentSortedIds = sortedIds currentIds;
          currentMap = nullish (getQueryData currentSortedIds s1) [];
          newMap = Map_delete currentMap soundId;
          s2 = setQueryData newSortedIds newMap s1
      in if currentIds \<noteq> [] then setQueryData currentSortedIds newMap s2 else s2)"

text \<open>\<open>saveToStorage(data)\<close>: overwrites the durable record unless \<open>setItem\<close> throws.\<close>

definition saveToStorage :: "(string \<rightharpoonup> SoundMetadata) SavedSoundsStorage \<Rightarrow> Store \<Rightarrow> Store" where
  "saveToStorage data s = (if storageWritable s then s\<lparr>localStorage := Some data\<rparr> else s)"


subsection \<open>The provider's operations (SavedSoundsContext)\<close>

text \<open>
  Each handler runs to completion against the state of the latest render; a state
  setter takes effect at once. \<open>index\<close> is \<open>None\<close> for \<open>undefined\<close>.
\<close>

definition emptyMetadata :: SoundMetadata where
  "emptyMetadata = \<lparr>meta_volume = None, meta_loop = None\<rparr>"

definition addSound :: "string \<Rightarrow> Sound \<Rightarrow> int option \<Rightarrow> Store \<Rightarrow> Store" where
  "addSound ident sound index s =
     (let prev = savedSoundIds s
      in if ident \<in> set prev then s
         else (let soundMetadata = nullish (metadataRef s ident) emptyMetadata;
                   s1 = addSoundToCachedMap sound prev soundMetadata s
               in case index of
                    Some i \<Rightarrow>
                      if i \<ge> 0 \<and> i \<le> int (length prev)
                      then s1\<lparr>savedSoundIds := take (nat i) prev @ ident # drop (nat i) prev\<rparr>
                      else s1\<lparr>savedSoundIds := prev @ [ident]\<rparr>
                  | None \<Rightarrow> s1\<lparr>savedSoundIds := prev @ [ident]\<rparr>))"

definition removeSound :: "string \<Rightarrow> Store \<Rightarrow> Store" where
  "removeSound ident s =
     (let prev = savedSoundIds s;
          s1 = removeSoundFromCachedMap ident prev s;
          s2 = s1\<lparr>savedSoundIds := filter (\<lambda>soundId. soundId \<noteq> ident) prev\<rparr>;
          s3 = s2\<lparr>metadataRef := (metadataRef s2)(ident := None)\<rparr>
      in saveToStorage
           \<lparr>savedSounds = filter (\<lambda>sid. sid \<noteq> ident) (savedSoundIds s),
            metadata = metadataRef s3,
            storedMasterVolume = None\<rparr> s3)"

text \<open>The \<open>forEach\<close> of \<open>clearAllSounds\<close>: pause what is playing.\<close>

fun pauseEach :: "sound_ref js_map \<Rightarrow> Store \<Rightarrow> Store" where
  "pauseEach [] s = s"
| "pauseEach ((k, r) # m) s =
     pauseEach m (if \<not> paused (audios s (audio (sounds s r)))
                  then pause (audio (sounds s r)) s else s)"

definition clearAllSounds :: "Store \<Rightarrow> Store" where
  "clearAllSounds s =
     (let s1 = pauseEach (savedSoundsMap s) s;
          s2 = s1\<lparr>savedSoundIds := []\<rparr>;
          s3 = s2\<lparr>metadataRef := Map.empty\<rparr>
      in saveToStorage \<lparr>savedSounds = [], metadata = Map.empty, storedMasterVolume = None\<rparr> s3)"

definition reorderSounds :: "string list \<Rightarrow> Store \<Rightarrow> Store" where
  "reorderSounds ids s = s\<lparr>savedSoundIds := ids\<rparr>"

text \<open>
  The data of \<open>useSoundsByIds(savedSoundIds)\<close> as far as the cache decides it (an empty
  \<open>Map\<close> while nothing is cached under the key), and the \<open>useMemo\<close> that copies it and
  applies the metadata to every entry; \<open>applyMetadata\<close> is the body of its \<open>forEach\<close>.
\<close>

definition savedSoundsMapData :: "Store \<Rightarrow> sound_ref js_map" where
  "savedSoundsMapData s = nullish (getQueryData (sortedIds (savedSoundIds s)) s) []"

definition applyMetadata :: "string \<Rightarrow> sound_ref \<Rightarrow> Store \<Rightarrow> Store" where
  "applyMetadata k r s =
     (let soundMetadata = metadataRef s k;
          baseVolume = nullish (case soundMetadata of None \<Rightarrow> None | Some md \<Rightarrow> meta_volume md)
                         (nullish (volume (sounds s r)) 100);
          s1 = set_sound_volume r baseVolume s;
          s2 = set_audio_volume (audio (sounds s1 r))
                 ((baseVolume / 100) * (masterVolume s / 100)) s1
      in case (case soundMetadata of None \<Rightarrow> None | Some md \<Rightarrow> meta_loop md) of
           Some l \<Rightarrow> set_audio_loop (audio (sounds s2 r)) l s2
         | None \<Rightarrow> set_audio_loop (audio (sounds s2 r)) False s2)"

fun applyMetadataEach :: "sound_ref js_map \<Rightarrow> Store \<Rightarrow> Store" where
  "applyMetadataEach [] s = s"
| "applyMetadataEach ((k, r) # m) s = applyMetadataEach m (applyMetadata k r s)"

definition useMemo_savedSoundsMap :: "Store \<Rightarrow> Store" where
  "useMemo_savedSoundsMap s =
     (let m = savedSoundsMapData s
      in (applyMetadataEach m s)\<lparr>savedSoundsMap := m\<rparr>)"

definition setSoundVolume :: "string \<Rightarrow> rat \<Rightarrow> Store \<Rightarrow> Store" where
  "setSoundVolume ident vol s =
     (case Map_get (savedSoundsMap s) ident of
        None \<Rightarrow> s
      | Some r \<Rightarrow>
          (let s1 = set_sound_volume r vol s;
               s2 = set_audio_volume (audio (sounds s1 r))
                      ((vol / 100) * (masterVolume s / 100)) s1;
               s3 = s2\<lparr>metadataRef := (metadataRef s2)(ident \<mapsto>
                        (nullish (metadataRef s2 ident) emptyMetadata)\<lparr>meta_volume := Some vol\<rparr>)\<rparr>;
               s4 = (case getQueryData (sortedIds (savedSoundIds s)) s3 of
                       None \<Rightarrow> s3
                     | Some currentMap \<Rightarrow>
                         (case Map_get currentMap ident of
                            None \<Rightarrow> s3
                          | Some u \<Rightarrow>
                              (let t1 = set_sound_volume u vol s3
                               in set_audio_volume (audio (sounds t1 u))
                                    ((vol / 100) * (masterVolume s / 100)) t1)))
           in saveToStorage
                \<lparr>savedSounds = savedSoundIds s, metadata = metadataRef s4,
                 storedMasterVolume = Some (masterVolume s)\<rparr> s4))"

text \<open>The \<open>forEach\<close> of \<open>setMasterVolume\<close>; \<open>ids\<close> is the handler's \<open>savedSoundIds\<close>.\<close>

fun masterEach :: "rat \<Rightarrow> string list \<Rightarrow> sound_ref js_map \<Rightarrow> Store \<Rightarrow> Store" where
  "masterEach vol ids [] s = s"
| "masterEach vol ids ((k, r) # m) s =
     (let baseVolume = nullish (volume (sounds s r)) 100;
          s1 = set_audio_volume (audio (sounds s r)) ((baseVolume / 100) * (vol / 100)) s;
          s2 = (case getQueryData (sortedIds ids) s1 of
                  None \<Rightarrow> s1
                | Some currentMap \<Rightarrow>
                    (case Map_get currentMap (sound_id (sounds s1 r)) of
                       None \<Rightarrow> s1
                     | Some u \<Rightarrow>
                         set_audio_volume (audio (sounds s1 u))
                           ((baseVolume / 100) * (vol / 100)) s1))
      in masterEach vol ids m s2)"

definition setMasterVolume :: "rat \<Rightarrow> Store \<Rightarrow> Store" where
  "setMasterVolume vol s =
     (let s1 = s\<lparr>masterVolume := vol\<rparr>;
          s2 = masterEach vol (savedSoundIds s) (savedSoundsMap s) s1
      in saveToStorage
           \<lparr>savedSounds = savedSoundIds s, metadata = metadataRef s2,
            storedMasterVolume = Some vol\<rparr> s2)"

definition setSoundLoop :: "string \<Rightarrow> bool \<Rightarrow> Store \<Rightarrow> Store" where
  "setSoundLoop ident lp s =
     (case Map_get (savedSoundsMap s) ident of
        None \<Rightarrow> s
      | Some r \<Rightarrow>
          (let s1 = set_audio_loop (audio (sounds s r)) lp s;
               s2 = s1\<lparr>metadataRef := (metadataRef s1)(ident \<mapsto>
                        (nullish (metadataRef s1 ident) emptyMetadata)\<lparr>meta_loop := Some lp\<rparr>)\<rparr>;
               s3 = (case getQueryData (sortedIds (savedSoundIds s)) s2 of
                       None \<Rightarrow> s2
                     | Some currentMap \<Rightarrow>
                         (case Map_get currentMap ident of
                            None \<Rightarrow> s2
                          | Some u \<Rightarrow> set_audio_loop (audio (sounds s2 u)) lp s2))
           in saveToStorage
                \<lparr>savedSounds = savedSoundIds s, metadata = metadataRef s3,
                 storedMasterVolume = Some (masterVolume s)\<rparr> s3))"


section \<open>Properties of the session used below\<close>

text \<open>
  The specification's effective volume, \<open>(member.volume / 100) * (session.masterVolume / 100)\<close>,
  written from its words; the code's own expressions are in the handlers above.
\<close>

definition effectiveVolume :: "rat \<Rightarrow> rat \<Rightarrow> rat" where
  "effectiveVolume memberVolume master = (memberVolume / 100) * (master / 100)"

text \<open>
  \<open>mixed\<close>: every resolved member's audio element carries the effective volume of the
  member's volume (\<open>sound.volume ?? 100\<close>) and the master volume.
\<close>

definition mixed :: "Store \<Rightarrow> bool" where
  "mixed s =
     (\<forall>(k, r) \<in> set (savedSoundsMap s).
        audio_volume (audios s (audio (sounds s r)))
          = effectiveVolume (nullish (volume (sounds s r)) 100) (masterVolume s))"

text \<open>
  The member volume a render settles on for the entry \<open>(k, r)\<close>:
  \<open>soundMetadata?.volume ?? sound.volume ?? 100\<close>.
\<close>

definition baseVolumeOf :: "Store \<Rightarrow> string \<Rightarrow> sound_ref \<Rightarrow> rat" where
  "baseVolumeOf s k r =
     nullish (case metadataRef s k of None \<Rightarrow> None | Some md \<Rightarrow> meta_volume md)
       (nullish (volume (sounds s r)) 100)"

text \<open>
  \<open>rendered\<close>: what holds of the memoised map after a render. Its keys are distinct (it
  is a \<open>Map\<close>), every entry is filed under its own id, no two members share an audio
  element (the registry hands out one per id), and it is the copy of the map cached under
  the current key, when there is one.
\<close>

definition rendered :: "Store \<Rightarrow> bool" where
  "rendered s =
     (distinct (map fst (savedSoundsMap s))
      \<and> (\<forall>(k, r) \<in> set (savedSoundsMap s). sound_id (sounds s r) = k)
      \<and> distinct (map (\<lambda>(k, r). audio (sounds s r)) (savedSoundsMap s))
      \<and> (case queryCache s (sortedIds (savedSoundIds s)) of
            None \<Rightarrow> True
          | Some m \<Rightarrow> m = savedSoundsMap s))"


section \<open>Example states\<close>

definition blankAudio :: HTMLAudioElement where
  "blankAudio = \<lparr>src = [], audio_volume = 1, loop = False, paused = True\<rparr>"

definition blankSound :: SavedSound where
  "blankSound = \<lparr>sound_id = [], sound_name = [], sound_url = [], sound_category = None,
                 sound_type = None, audio = 0, volume = None\<rparr>"

text \<open>The store at startup with nothing persisted.\<close>

definition emptyStore :: Store where
  "emptyStore =
     \<lparr>savedSoundIds = [], masterVolume = 100, metadataRef = Map.empty, savedSoundsMap = [],
      audioElementRegistry = Map.empty, audios = (\<lambda>a. blankAudio), nextAudio = 0,
      sounds = (\<lambda>r. blankSound), nextSound = 0, queryCache = Map.empty,
      localStorage = None, storageWritable = True\<rparr>"

definition rain :: Sound where
  "rain = \<lparr>sound_id = ''clip1'', sound_name = ''Rain'',
           sound_url = ''https://cdn.test/rain.mp3'',
           sound_category = None, sound_type = None\<rparr>"

definition wind :: Sound where
  "wind = \<lparr>sound_id = ''clip2'', sound_name = ''Wind'',
           sound_url = ''https://cdn.test/wind.mp3'',
           sound_category = None, sound_type = None\<rparr>"

text \<open>From startup: \<open>add("clip1", rain)\<close>, the render, \<open>setVolume 40\<close>, \<open>setLoop true\<close>.\<close>

definition tuning :: Store where
  "tuning = setSoundLoop ''clip1'' True (setSoundVolume ''clip1'' 40
              (useMemo_savedSoundsMap (addSound ''clip1'' rain None emptyStore)))"

text \<open>
  One member, \<open>clip1\<close>, tuned to volume 40 with looping on, and playing: the state
  \<open>tuning\<close> written out, with the element started.
\<close>

definition tunedClip :: Store where
  "tunedClip =
     \<lparr>savedSoundIds = [''clip1''], masterVolume = 100,
      metadataRef = [''clip1'' \<mapsto> \<lparr>meta_volume = Some 40, meta_loop = Some True\<rparr>],
      savedSoundsMap = [(''clip1'', 0)],
      audioElementRegistry = [''clip1'' \<mapsto> 0],
      audios = (\<lambda>a. blankAudio)(0 :=
                 \<lparr>src = ''https://cdn.test/rain.mp3'', audio_volume = 2 / 5,
                  loop = True, paused = False\<rparr>),
      nextAudio = 1,
      sounds = (\<lambda>r. blankSound)(0 :=
                 \<lparr>sound_id = ''clip1'', sound_name = ''Rain'',
                  sound_url = ''https://cdn.test/rain.mp3'', sound_category = Some [],
                  sound_type = Some [], audio = 0, volume = Some 40\<rparr>),
      nextSound = 1,
      queryCache = [ [''clip1''] \<mapsto> [(''clip1'', 0)]],
      localStorage =
        Some \<lparr>savedSounds = [''clip1''],
              metadata = [''clip1'' \<mapsto> \<lparr>meta_volume = Some 40, meta_loop = Some True\<rparr>],
              storedMasterVolume = Some 100\<rparr>,
      storageWritable = True\<rparr>"

text \<open>\<open>remove("clip1")\<close> then \<open>add("clip1", rain)\<close> on it, and the render that follows.\<close>

definition readded :: Store where
  "readded = useMemo_savedSoundsMap (addSound ''clip1'' rain None (removeSound ''clip1'' tunedClip))"

text \<open>
  From \<open>tuning\<close>: \<open>add("clip2", wind, 0)\<close>, the render, \<open>setMasterVolume 50\<close> and the
  render.
\<close>

definition mixing :: Store where
  "mixing = useMemo_savedSoundsMap (setMasterVolume 50
              (useMemo_savedSoundsMap (addSound ''clip2'' wind (Some 0) tuning)))"

text \<open>
  Two members at master volume 50, \<open>clip2\<close> (volume 100) before \<open>clip1\<close> (volume 40):
  the state \<open>mixing\<close> written out.
\<close>

definition twoClips :: Store where
  "twoClips =
     \<lparr>savedSoundIds = [''clip2'', ''clip1''], masterVolume = 50,
      metadataRef = [''clip1'' \<mapsto> \<lparr>meta_volume = Some 40, meta_loop = Some True\<rparr>],
      savedSoundsMap = [(''clip1'', 0), (''clip2'', 1)],
      audioElementRegistry = [''clip1'' \<mapsto> 0, ''clip2'' \<mapsto> 1],
      audios = (\<lambda>a. blankAudio)(
                 0 := \<lparr>src = ''https://cdn.test/rain.mp3'', audio_volume = 1 / 5,
                       loop = True, paused = True\<rparr>,
                 1 := \<lparr>src = ''https://cdn.test/wind.mp3'', audio_volume = 1 / 2,
                       loop = False, paused = True\<rparr>),
      nextAudio = 2,
      sounds = (\<lambda>r. blankSound)(
                 0 := \<lparr>sound_id = ''clip1'', sound_name = ''Rain'',
                       sound_url = ''https://cdn.test/rain.mp3'', sound_category = Some [],
                       sound_type = Some [], audio = 0, volume = Some 40\<rparr>,
                 1 := \<lparr>sound_id = ''clip2'', sound_name = ''Wind'',
                       sound_url = ''https://cdn.test/wind.mp3'', sound_category = Some [],
                       sound_type = Some [], audio = 1, volume = Some 100\<rparr>),
      nextSound = 2,
      queryCache = [ [''clip1''] \<mapsto> [(''clip1'', 0), (''clip2'', 1)],
                    [''clip1'', ''clip2''] \<mapsto> [(''clip1'', 0), (''clip2'', 1)]],
      localStorage =
        Some \<lparr>savedSounds = [''clip2'', ''clip1''],
              metadata = [''clip1'' \<mapsto> \<lparr>meta_volume = Some 40, meta_loop = Some True\<rparr>],
              storedMasterVolume = Some 50\<rparr>,
      storageWritable = True\<rparr>"

text \<open>A session of three members with nothing resolved yet.\<close>

definition abcStore :: Store where
  "abcStore = emptyStore\<lparr>savedSoundIds := [''a'', ''b'', ''c'']\<rparr>"

text \<open>A parser that accepts two texts and rejects everything else.\<close>

definition exampleParse :: "string \<Rightarrow> js_error + json" where
  "exampleParse txt =
     (if txt = ''7'' then Inr (JNumber 7)
      else if txt = ''{}'' then Inr (JObject [])
      else Inl SyntaxError)"


section \<open>The fade\<close>

lemma fadeProgress_le_one: "fadeProgress e \<le> 1"
  by (simp add: fadeProgress_def)

lemma fadeProgress_nonneg: "0 \<le> e \<Longrightarrow> 0 \<le> fadeProgress e"
  by (simp add: fadeProgress_def FADE_DURATION_MS_def)

lemma fadeProgress_mono: "e1 \<le> e2 \<Longrightarrow> fadeProgress e1 \<le> fadeProgress e2"
  by (simp add: fadeProgress_def FADE_DURATION_MS_def min_def divide_right_mono)

lemma fadeProgress_done: "FADE_DURATION_MS \<le> of_int e \<Longrightarrow> fadeProgress e = 1"
  by (simp add: fadeProgress_def FADE_DURATION_MS_def min_def)

lemma currentVolume_up_mono:
  "a \<le> b \<Longrightarrow> e1 \<le> e2 \<Longrightarrow> currentVolume a b e1 \<le> currentVolume a b e2"
  by (simp add: currentVolume_def fadeProgress_mono mult_left_mono)

lemma currentVolume_down_mono:
  "b \<le> a \<Longrightarrow> e1 \<le> e2 \<Longrightarrow> currentVolume a b e2 \<le> currentVolume a b e1"
  by (simp add: currentVolume_def fadeProgress_mono mult_left_mono_neg)

lemma currentVolume_up_le: "a \<le> b \<Longrightarrow> currentVolume a b e \<le> b"
proof -
  assume ab: "a \<le> b"
  have "(b - a) * fadeProgress e \<le> (b - a) * 1"
    using ab fadeProgress_le_one by (intro mult_left_mono) auto
  then show ?thesis by (simp add: currentVolume_def)
qed

lemma currentVolume_down_ge: "b \<le> a \<Longrightarrow> b \<le> currentVolume a b e"
proof -
  assume ba: "b \<le> a"
  have "(a - b) * fadeProgress e \<le> (a - b) * 1"
    using ba fadeProgress_le_one by (intro mult_left_mono) auto
  then show ?thesis by (simp add: currentVolume_def algebra_simps)
qed

lemma currentVolume_up_ge: "a \<le> b \<Longrightarrow> 0 \<le> e \<Longrightarrow> a \<le> currentVolume a b e"
  by (simp add: currentVolume_def fadeProgress_nonneg)

lemma currentVolume_down_le: "b \<le> a \<Longrightarrow> 0 \<le> e \<Longrightarrow> currentVolume a b e \<le> a"
  by (simp add: currentVolume_def fadeProgress_nonneg mult_nonpos_nonneg)

lemma fadeInterval_writes:
  "w \<in> set (fst (fadeInterval a b t0 ticks)) \<Longrightarrow>
     w = b \<or> (\<exists>now \<in> set ticks. w = currentVolume a b (now - t0))"
  by (induction ticks) (auto simp: Let_def split: if_splits prod.splits)

lemma fadeInterval_sorted_up:
  "a \<le> b \<Longrightarrow> sorted ticks \<Longrightarrow> sorted (fst (fadeInterval a b t0 ticks))"
proof (induction ticks)
  case Nil
  then show ?case by simp
next
  case (Cons now ticks)
  have later: "currentVolume a b (now - t0) \<le> w"
    if "w \<in> set (fst (fadeInterval a b t0 ticks))" for w
  proof -
    from fadeInterval_writes [OF that] show ?thesis
    proof
      assume "w = b"
      then show ?thesis using Cons.prems(1) currentVolume_up_le by simp
    next
      assume "\<exists>n \<in> set ticks. w = currentVolume a b (n - t0)"
      then obtain n where n: "n \<in> set ticks" "w = currentVolume a b (n - t0)" by blast
      with Cons.prems(2) have "now - t0 \<le> n - t0" by simp
      then show ?thesis using n(2) Cons.prems(1) currentVolume_up_mono by simp
    qed
  qed
  from Cons show ?case
    by (auto simp: Let_def currentVolume_up_le later split: prod.splits)
qed

lemma fadeInterval_sorted_down:
  "b \<le> a \<Longrightarrow> sorted ticks \<Longrightarrow> sorted (rev (fst (fadeInterval a b t0 ticks)))"
proof (induction ticks)
  case Nil
  then show ?case by simp
next
  case (Cons now ticks)
  have later: "w \<le> currentVolume a b (now - t0)"
    if "w \<in> set (fst (fadeInterval a b t0 ticks))" for w
  proof -
    from fadeInterval_writes [OF that] show ?thesis
    proof
      assume "w = b"
      then show ?thesis using Cons.prems(1) currentVolume_down_ge by simp
    next
      assume "\<exists>n \<in> set ticks. w = currentVolume a b (n - t0)"
      then obtain n where n: "n \<in> set ticks" "w = currentVolume a b (n - t0)" by blast
      with Cons.prems(2) have "now - t0 \<le> n - t0" by simp
      then show ?thesis using n(2) Cons.prems(1) currentVolume_down_mono by simp
    qed
  qed
  from Cons show ?case
    by (auto simp: Let_def sorted_append currentVolume_down_ge later split: prod.splits)
qed

lemma fadeInterval_range:
  assumes "\<forall>now \<in> set ticks. t0 \<le> now" and "w \<in> set (fst (fadeInterval a b t0 ticks))"
  shows "min a b \<le> w \<and> w \<le> max a b"
proof -
  from fadeInterval_writes [OF assms(2)] show ?thesis
  proof
    assume "w = b" then show ?thesis by simp
  next
    assume "\<exists>n \<in> set ticks. w = currentVolume a b (n - t0)"
    then obtain n where n: "n \<in> set ticks" "w = currentVolume a b (n - t0)" by blast
    with assms(1) have e: "0 \<le> n - t0" by simp
    show ?thesis
    proof (cases "a \<le> b")
      case True
      then show ?thesis
        using currentVolume_up_ge [OF True e] currentVolume_up_le [OF True] n(2) by simp
    next
      case False
      then have ba: "b \<le> a" by simp
      then show ?thesis
        using currentVolume_down_ge [OF ba] currentVolume_down_le [OF ba e] n(2) by simp
    qed
  qed
qed

lemma fadeInterval_completes:
  "\<exists>now \<in> set ticks. FADE_DURATION_MS \<le> of_int (now - t0) \<Longrightarrow>
     snd (fadeInterval a b t0 ticks) \<and> last (fst (fadeInterval a b t0 ticks)) = b"
proof (induction ticks)
  case Nil
  then show ?case by simp
next
  case (Cons now ticks)
  show ?case
  proof (cases "1 \<le> fadeProgress (now - t0)")
    case True
    then show ?thesis by (simp add: Let_def)
  next
    case False
    then have "\<not> FADE_DURATION_MS \<le> of_int (now - t0)"
      using fadeProgress_done by fastforce
    with Cons.prems have "\<exists>n \<in> set ticks. FADE_DURATION_MS \<le> of_int (n - t0)" by auto
    from Cons.IH [OF this] False show ?thesis
      by (cases "fadeInterval a b t0 ticks")
         (cases ticks; auto simp: Let_def split: prod.splits if_splits)
  qed
qed

text \<open>
  C7. A fade from \<open>a\<close> to \<open>b\<close> whose ticks read a clock that does not run backwards and
  is never before the start: the volumes written are non-decreasing when \<open>a \<le> b\<close> and
  non-increasing when \<open>b \<le> a\<close>, every one lies in \<open>[min a b, max a b]\<close>, and as soon as
  a tick sees the duration elapsed the promise resolves with the last write exactly \<open>b\<close>.
  \<open>fadeIn\<close> and \<open>fadeOut\<close> are the instances \<open>a = 0\<close> and \<open>b = 0\<close>.
\<close>

theorem fade_monotone_bounded_exact:
  assumes "sorted ticks" and "\<forall>now \<in> set ticks. startTime \<le> now"
  shows "(a \<le> b \<longrightarrow> sorted (fst (fadeInterval a b startTime ticks)))
       \<and> (b \<le> a \<longrightarrow> sorted (rev (fst (fadeInterval a b startTime ticks))))
       \<and> (\<forall>w \<in> set (fst (fadeInterval a b startTime ticks)). min a b \<le> w \<and> w \<le> max a b)
       \<and> ((\<exists>now \<in> set ticks. FADE_DURATION_MS \<le> of_int (now - startTime)) \<longrightarrow>
            snd (fadeInterval a b startTime ticks)
            \<and> last (fst (fadeInterval a b startTime ticks)) = b)"
  using assms fadeInterval_sorted_up fadeInterval_sorted_down fadeInterval_range
    fadeInterval_completes by blast


theorem fade_monotone_bounded_exact_witness:
  "sorted [1010, 1100, 1199, 1200, 1210 :: int]
 \<and> list_all (\<lambda>now. 1000 \<le> now) [1010, 1100, 1199, 1200, 1210 :: int]
 \<and> fadeIn (1 / 2) 1000 [1010, 1100, 1199, 1200, 1210]
     = ([1 / 40, 1 / 4, 199 / 400, 1 / 2, 1 / 2], True)
 \<and> sorted (fst (fadeInterval 0 (1 / 2) 1000 [1010, 1100, 1199, 1200, 1210]))
 \<and> list_all (\<lambda>w. min 0 (1 / 2) \<le> w \<and> w \<le> max 0 (1 / 2))
      (fst (fadeInterval 0 (1 / 2) 1000 [1010, 1100, 1199, 1200, 1210]))
 \<and> snd (fadeInterval 0 (1 / 2) 1000 [1010, 1100, 1199, 1200, 1210])
 \<and> last (fst (fadeInterval 0 (1 / 2) 1000 [1010, 1100, 1199, 1200, 1210])) = 1 / 2
 \<and> fadeOut (4 / 5) 1000 [1010, 1100, 1205, 1210] = ([19 / 25, 2 / 5, 0, 0], True)
 \<and> sorted (rev (fst (fadeInterval (4 / 5) 0 1000 [1010, 1100, 1205, 1210])))
 \<and> last (fst (fadeInterval (4 / 5) 0 1000 [1010, 1100, 1205, 1210])) = 0"
  using fade_monotone_bounded_exact [of "[1010, 1100, 1199, 1200, 1210]" 1000 0 "1 / 2"]
    fade_monotone_bounded_exact [of "[1010, 1100, 1205, 1210]" 1000 "4 / 5" 0]
  by (simp add: fadeIn_def fadeOut_def fadeProgress_def currentVolume_def FADE_DURATION_MS_def)


section \<open>Frame lemmas for the store\<close>

lemma set_audio_volume_frame [simp]:
  "savedSoundIds (set_audio_volume a v s) = savedSoundIds s"
  "masterVolume (set_audio_volume a v s) = masterVolume s"
  "metadataRef (set_audio_volume a v s) = metadataRef s"
  "savedSoundsMap (set_audio_volume a v s) = savedSoundsMap s"
  "audioElementRegistry (set_audio_volume a v s) = audioElementRegistry s"
  "nextAudio (set_audio_volume a v s) = nextAudio s"
  "sounds (set_audio_volume a v s) = sounds s"
  "nextSound (set_audio_volume a v s) = nextSound s"
  "queryCache (set_audio_volume a v s) = queryCache s"
  "localStorage (set_audio_volume a v s) = localStorage s"
  "storageWritable (set_audio_volume a v s) = storageWritable s"
  "audios (set_audio_volume a v s) = (audios s)(a := (audios s a)\<lparr>audio_volume := v\<rparr>)"
  by (simp_all add: set_audio_volume_def)

lemma set_audio_loop_frame [simp]:
  "savedSoundIds (set_audio_loop a l s) = savedSoundIds s"
  "masterVolume (set_audio_loop a l s) = masterVolume s"
  "metadataRef (set_audio_loop a l s) = metadataRef s"
  "savedSoundsMap (set_audio_loop a l s) = savedSoundsMap s"
  "audioElementRegistry (set_audio_loop a l s) = audioElementRegistry s"
  "nextAudio (set_audio_loop a l s) = nextAudio s"
  "sounds (set_audio_loop a l s) = sounds s"
  "nextSound (set_audio_loop a l s) = nextSound s"
  "queryCache (set_audio_loop a l s) = queryCache s"
  "localStorage (set_audio_loop a l s) = localStorage s"
  "storageWritable (set_audio_loop a l s) = storageWritable s"
  "audios (set_audio_loop a l s) = (audios s)(a := (audios s a)\<lparr>loop := l\<rparr>)"
  by (simp_all add: set_audio_loop_def)

lemma pause_frame [simp]:
  "savedSoundIds (pause a s) = savedSoundIds s"
  "masterVolume (pause a s) = masterVolume s"
  "metadataRef (pause a s) = metadataRef s"
  "savedSoundsMap (pause a s) = savedSoundsMap s"
  "audioElementRegistry (pause a s) = audioElementRegistry s"
  "nextAudio (pause a s) = nextAudio s"
  "sounds (pause a s) = sounds s"
  "nextSound (pause a s) = nextSound s"
  "queryCache (pause a s) = queryCache s"
  "localStorage (pause a s) = localStorage s"
  "storageWritable (pause a s) = storageWritable s"
  "audios (pause a s) = (audios s)(a := (audios s a)\<lparr>paused := True\<rparr>)"
  by (simp_all add: pause_def)

lemma set_sound_volume_frame [simp]:
  "savedSoundIds (set_sound_volume r v s) = savedSoundIds s"
  "masterVolume (set_sound_volume r v s) = masterVolume s"
  "metadataRef (set_sound_volume r v s) = metadataRef s"
  "savedSoundsMap (set_sound_volume r v s) = savedSoundsMap s"
  "audioElementRegistry (set_sound_volume r v s) = audioElementRegistry s"
  "nextAudio (set_sound_volume r v s) = nextAudio s"
  "audios (set_sound_volume r v s) = audios s"
  "nextSound (set_sound_volume r v s) = nextSound s"
  "queryCache (set_sound_volume r v s) = queryCache s"
  "localStorage (set_sound_volume r v s) = localStorage s"
  "storageWritable (set_sound_volume r v s) = storageWritable s"
  "sounds (set_sound_volume r v s) = (sounds s)(r := (sounds s r)\<lparr>volume := Some v\<rparr>)"
  by (simp_all add: set_sound_volume_def)

lemma setQueryData_frame [simp]:
  "savedSoundIds (setQueryData key m s) = savedSoundIds s"
  "masterVolume (setQueryData key m s) = masterVolume s"
  "metadataRef (setQueryData key m s) = metadataRef s"
  "savedSoundsMap (setQueryData key m s) = savedSoundsMap s"
  "audioElementRegistry (setQueryData key m s) = audioElementRegistry s"
  "nextAudio (setQueryData key m s) = nextAudio s"
  "audios (setQueryData key m s) = audios s"
  "sounds (setQueryData key m s) = sounds s"
  "nextSound (setQueryData key m s) = nextSound s"
  "localStorage (setQueryData key m s) = localStorage s"
  "storageWritable (setQueryData key m s) = storageWritable s"
  "queryCache (setQueryData key m s) = (queryCache s)(key \<mapsto> m)"
  by (simp_all add: setQueryData_def)

lemma saveToStorage_frame [simp]:
  "savedSoundIds (saveToStorage d s) = savedSoundIds s"
  "masterVolume (saveToStorage d s) = masterVolume s"
  "metadataRef (saveToStorage d s) = metadataRef s"
  "savedSoundsMap (saveToStorage d s) = savedSoundsMap s"
  "audioElementRegistry (saveToStorage d s) = audioElementRegistry s"
  "nextAudio (saveToStorage d s) = nextAudio s"
  "audios (saveToStorage d s) = audios s"
  "sounds (saveToStorage d s) = sounds s"
  "nextSound (saveToStorage d s) = nextSound s"
  "queryCache (saveToStorage d s) = queryCache s"
  "storageWritable (saveToStorage d s) = storageWritable s"
  by (simp_all add: saveToStorage_def)

lemma getQueryData_simp [simp]: "getQueryData key s = queryCache s key"
  by (simp add: getQueryData_def)

lemma getOrCreate_frame [simp]:
  "savedSoundIds (snd (getOrCreateAudioElement i u s)) = savedSoundIds s"
  "masterVolume (snd (getOrCreateAudioElement i u s)) = masterVolume s"
  "metadataRef (snd (getOrCreateAudioElement i u s)) = metadataRef s"
  "savedSoundsMap (snd (getOrCreateAudioElement i u s)) = savedSoundsMap s"
  "sounds (snd (getOrCreateAudioElement i u s)) = sounds s"
  "nextSound (snd (getOrCreateAudioElement i u s)) = nextSound s"
  "queryCache (snd (getOrCreateAudioElement i u s)) = queryCache s"
  "localStorage (snd (getOrCreateAudioElement i u s)) = localStorage s"
  "storageWritable (snd (getOrCreateAudioElement i u s)) = storageWritable s"
  by (simp_all add: getOrCreateAudioElement_def new_Audio_def registry_set_def Let_def
      split: option.splits)

lemma addSoundToCachedMap_frame [simp]:
  "savedSoundIds (addSoundToCachedMap sound ids md s) = savedSoundIds s"
  "masterVolume (addSoundToCachedMap sound ids md s) = masterVolume s"
  "metadataRef (addSoundToCachedMap sound ids md s) = metadataRef s"
  "savedSoundsMap (addSoundToCachedMap sound ids md s) = savedSoundsMap s"
  "localStorage (addSoundToCachedMap sound ids md s) = localStorage s"
  "storageWritable (addSoundToCachedMap sound ids md s) = storageWritable s"
  by (simp_all add: addSoundToCachedMap_def Let_def split_beta split: option.splits)

lemma removeSoundFromCachedMap_frame [simp]:
  "savedSoundIds (removeSoundFromCachedMap i ids s) = savedSoundIds s"
  "masterVolume (removeSoundFromCachedMap i ids s) = masterVolume s"
  "metadataRef (removeSoundFromCachedMap i ids s) = metadataRef s"
  "savedSoundsMap (removeSoundFromCachedMap i ids s) = savedSoundsMap s"
  "sounds (removeSoundFromCachedMap i ids s) = sounds s"
  "localStorage (removeSoundFromCachedMap i ids s) = localStorage s"
  "storageWritable (removeSoundFromCachedMap i ids s) = storageWritable s"
  by (simp_all add: removeSoundFromCachedMap_def Let_def split: option.splits)

lemma pauseEach_frame [simp]:
  "savedSoundIds (pauseEach m s) = savedSoundIds s"
  "masterVolume (pauseEach m s) = masterVolume s"
  "metadataRef (pauseEach m s) = metadataRef s"
  "savedSoundsMap (pauseEach m s) = savedSoundsMap s"
  "sounds (pauseEach m s) = sounds s"
  "queryCache (pauseEach m s) = queryCache s"
  "localStorage (pauseEach m s) = localStorage s"
  "storageWritable (pauseEach m s) = storageWritable s"
  by (induction m s rule: pauseEach.induct; simp)+

lemma masterEach_frame [simp]:
  "savedSoundIds (masterEach v ids m s) = savedSoundIds s"
  "masterVolume (masterEach v ids m s) = masterVolume s"
  "metadataRef (masterEach v ids m s) = metadataRef s"
  "savedSoundsMap (masterEach v ids m s) = savedSoundsMap s"
  "sounds (masterEach v ids m s) = sounds s"
  "queryCache (masterEach v ids m s) = queryCache s"
  "localStorage (masterEach v ids m s) = localStorage s"
  "storageWritable (masterEach v ids m s) = storageWritable s"
  by (induction v ids m s rule: masterEach.induct; simp add: Let_def split: option.splits)+

lemma addSound_ids:
  "savedSoundIds (addSound i sound index s) =
     (if i \<in> set (savedSoundIds s) then savedSoundIds s
      else case index of
             Some n \<Rightarrow> if n \<ge> 0 \<and> n \<le> int (length (savedSoundIds s))
                       then take (nat n) (savedSoundIds s) @ i # drop (nat n) (savedSoundIds s)
                       else savedSoundIds s @ [i]
           | None \<Rightarrow> savedSoundIds s @ [i])"
  by (simp add: addSound_def Let_def split: option.splits)

lemma removeSound_ids:
  "savedSoundIds (removeSound i s) = filter (\<lambda>x. x \<noteq> i) (savedSoundIds s)"
  by (simp add: removeSound_def Let_def)

lemma clearAllSounds_ids: "savedSoundIds (clearAllSounds s) = []"
  by (simp add: clearAllSounds_def Let_def)

lemma setSoundVolume_ids: "savedSoundIds (setSoundVolume i v s) = savedSoundIds s"
  by (simp add: setSoundVolume_def Let_def split: option.splits)

lemma setSoundLoop_ids: "savedSoundIds (setSoundLoop i l s) = savedSoundIds s"
  by (simp add: setSoundLoop_def Let_def split: option.splits)

lemma setMasterVolume_ids: "savedSoundIds (setMasterVolume v s) = savedSoundIds s"
  by (simp add: setMasterVolume_def Let_def)

lemma distinct_insert_at:
  assumes d: "distinct xs" and x: "x \<notin> set xs"
  shows "distinct (take n xs @ x # drop n xs)"
proof -
  have "distinct (take n xs @ drop n xs)" using d by simp
  then have parts: "distinct (take n xs)" "distinct (drop n xs)"
    "set (take n xs) \<inter> set (drop n xs) = {}"
    by (simp_all only: distinct_append)
  have "x \<notin> set (take n xs)" "x \<notin> set (drop n xs)"
    using x by (auto dest: in_set_takeD in_set_dropD)
  with parts show ?thesis by (simp add: distinct_append)
qed

lemma addSound_distinct:
  "distinct (savedSoundIds s) \<Longrightarrow> distinct (savedSoundIds (addSound i sound index s))"
proof -
  assume d: "distinct (savedSoundIds s)"
  have app: "distinct (savedSoundIds s @ [i])" if "i \<notin> set (savedSoundIds s)"
    using d that by simp
  show ?thesis
    using d app by (cases index) (simp_all add: addSound_ids distinct_insert_at del: distinct_append)
qed

text \<open>
  C3 (amended). From a sequence without duplicates, add, remove, setVolume, setLoop,
  setMasterVolume and clear yield a sequence without duplicates; reorder yields one
  exactly when the sequence it is given has none.
\<close>

theorem mutators_keep_ids_distinct:
  assumes "distinct (savedSoundIds s)"
  shows "distinct (savedSoundIds (addSound i sound index s))
       \<and> distinct (savedSoundIds (removeSound i s))
       \<and> distinct (savedSoundIds (setSoundVolume i v s))
       \<and> distinct (savedSoundIds (setSoundLoop i l s))
       \<and> distinct (savedSoundIds (setMasterVolume mv s))
       \<and> distinct (savedSoundIds (clearAllSounds s))
       \<and> (distinct (savedSoundIds (reorderSounds ids s)) = distinct ids)"
  using assms addSound_distinct [of s i sound index]
  by (simp add: removeSound_ids setSoundVolume_ids setSoundLoop_ids
      setMasterVolume_ids clearAllSounds_ids reorderSounds_def)

theorem mutators_keep_ids_distinct_witness:
  "distinct (savedSoundIds tunedClip)
 \<and> distinct (savedSoundIds (addSound ''clip2'' wind (Some 0) tunedClip))
 \<and> distinct (savedSoundIds (removeSound ''clip1'' tunedClip))
 \<and> distinct (savedSoundIds (clearAllSounds tunedClip))
 \<and> distinct (savedSoundIds (reorderSounds [''clip1''] tunedClip))"
  using mutators_keep_ids_distinct [of tunedClip "''clip2''" wind "Some 0" _ _ _ "[''clip1'']"]
    mutators_keep_ids_distinct [of tunedClip "''clip1''"]
  by (simp add: tunedClip_def)

theorem reorder_duplicates_counterexample:
  "distinct (savedSoundIds abcStore)
 \<and> \<not> distinct (savedSoundIds (reorderSounds [''a'', ''a'', ''c''] abcStore))"
  by (simp add: abcStore_def emptyStore_def reorderSounds_def)


text \<open>
  C2 (amended). \<open>reorder\<close> makes the ordered sequence exactly the sequence it is given,
  whether or not that is a permutation of the current members.
\<close>

theorem reorder_replaces_wholesale: "savedSoundIds (reorderSounds ids s) = ids"
  by (simp add: reorderSounds_def)

theorem reorder_non_permutation_counterexample:
  "savedSoundIds abcStore = [''a'', ''b'', ''c'']
 \<and> ''x'' \<notin> set (savedSoundIds abcStore)
 \<and> savedSoundIds (reorderSounds [''x'', ''a'', ''c''] abcStore) = [''x'', ''a'', ''c'']
 \<and> savedSoundIds (reorderSounds [''x'', ''a'', ''c''] abcStore) \<noteq> savedSoundIds abcStore"
  by (simp add: abcStore_def emptyStore_def reorderSounds_def)


text \<open>
  C5. Adding an id that is already in the ordered sequence changes nothing: the whole
  state, and so the sequence and the metadata table, is as before.
\<close>

theorem add_existing_is_noop:
  assumes "i \<in> set (savedSoundIds s)"
  shows "addSound i sound index s = s"
  using assms by (simp add: addSound_def)

theorem add_existing_is_noop_witness:
  "''clip1'' \<in> set (savedSoundIds tunedClip)
 \<and> addSound ''clip1'' rain (Some 0) tunedClip = tunedClip"
  using add_existing_is_noop [of "''clip1''" tunedClip rain "Some 0"]
  by (simp add: tunedClip_def)


text \<open>
  C10. For an id absent from the resolved saved-sounds map, \<open>setSoundVolume\<close> and
  \<open>setSoundLoop\<close> return the state unchanged: sequence, metadata, master volume and the
  durable record included.
\<close>

theorem unresolved_id_is_noop:
  assumes "Map_get (savedSoundsMap s) i = None"
  shows "setSoundVolume i v s = s \<and> setSoundLoop i l s = s"
  using assms by (simp add: setSoundVolume_def setSoundLoop_def)

theorem unresolved_id_is_noop_witness:
  "Map_get (savedSoundsMap tunedClip) ''clip9'' = None
 \<and> setSoundVolume ''clip9'' 30 tunedClip = tunedClip
 \<and> setSoundLoop ''clip9'' True tunedClip = tunedClip"
  using unresolved_id_is_noop [of tunedClip "''clip9''" 30 True]
  by (simp add: tunedClip_def Map_get_def)


text \<open>
  C9. A durable record that is missing, cannot be read, does not parse, or whose
  \<open>savedSounds\<close> is not an array yields the defaults: no saved sounds, empty metadata,
  master volume 100. Every failure is a branch that returns.
\<close>

theorem malformed_record_gives_defaults:
  "getStoredSounds JSON_parse (Inr None) = defaultStorage
 \<and> getStoredSounds JSON_parse (Inl e) = defaultStorage
 \<and> (JSON_parse garbled = Inl e' \<longrightarrow>
       getStoredSounds JSON_parse (Inr (Some garbled)) = defaultStorage)
 \<and> (JSON_parse stored = Inr parsed \<and> \<not> isArray (getProp parsed ''savedSounds'') \<longrightarrow>
       getStoredSounds JSON_parse (Inr (Some stored)) = defaultStorage)
 \<and> savedSounds defaultStorage = [] \<and> metadata defaultStorage = JObject []
 \<and> storedMasterVolume defaultStorage = Some 100"
  by (simp add: getStoredSounds_def defaultStorage_def)

theorem malformed_record_gives_defaults_witness:
  "exampleParse ''not json'' = Inl SyntaxError
 \<and> exampleParse ''7'' = Inr (JNumber 7)
 \<and> \<not> isArray (getProp (JNumber 7) ''savedSounds'')
 \<and> getStoredSounds exampleParse (Inr (Some ''not json'')) = defaultStorage
 \<and> getStoredSounds exampleParse (Inr (Some ''7'')) = defaultStorage"
  using malformed_record_gives_defaults
    [where JSON_parse = exampleParse and garbled = "''not json''" and e' = SyntaxError
       and stored = "''7''" and parsed = "JNumber 7"]
  by (simp add: exampleParse_def)



section \<open>The example states are reached\<close>

lemmas evals = rain_def wind_def addSound_def removeSound_def addSoundToCachedMap_def
  removeSoundFromCachedMap_def getOrCreateAudioElement_def new_Audio_def registry_set_def
  setQueryData_def saveToStorage_def sortedIds_def nullish_def Map_get_def
  Map_delete_def emptyMetadata_def set_audio_volume_def set_audio_loop_def pause_def
  set_sound_volume_def useMemo_savedSoundsMap_def savedSoundsMapData_def applyMetadata_def
  Let_def

lemma tunedClip_reached:
  "tuning\<lparr>audios := (audios tuning)(0 := (audios tuning 0)\<lparr>paused := False\<rparr>)\<rparr> = tunedClip"
  by (simp add: tuning_def tunedClip_def emptyStore_def blankAudio_def blankSound_def evals
      setSoundLoop_def setSoundVolume_def fun_eq_iff)

lemma tuning_eq:
  "tuning = tunedClip\<lparr>audios := (audios tunedClip)(0 := (audios tunedClip 0)\<lparr>paused := True\<rparr>)\<rparr>"
  by (simp add: tuning_def tunedClip_def emptyStore_def blankAudio_def blankSound_def evals
      setSoundLoop_def setSoundVolume_def fun_eq_iff)

lemma twoClips_reached: "mixing = twoClips"
  by (simp add: mixing_def tuning_eq tunedClip_def twoClips_def blankAudio_def blankSound_def
      evals setMasterVolume_def fun_eq_iff)


section \<open>The audio registry\<close>



section \<open>Clearing the session\<close>

lemma pauseEach_volume [simp]:
  "audio_volume (audios (pauseEach m s) a) = audio_volume (audios s a)"
  by (induction m s rule: pauseEach.induct) simp_all

lemma pauseEach_keeps_paused:
  "paused (audios s a) \<Longrightarrow> paused (audios (pauseEach m s) a)"
  by (induction m s rule: pauseEach.induct) simp_all

lemma pauseEach_pauses:
  "(k, r) \<in> set m \<Longrightarrow> paused (audios (pauseEach m s) (audio (sounds s r)))"
proof (induction m s rule: pauseEach.induct)
  case (1 s)
  then show ?case by simp
next
  case (2 k' r' m s)
  let ?s' = "if \<not> paused (audios s (audio (sounds s r'))) then pause (audio (sounds s r')) s else s"
  have snd': "sounds ?s' = sounds s" by simp
  show ?case
  proof (cases "(k, r) = (k', r')")
    case True
    then have "paused (audios ?s' (audio (sounds s r)))" by simp
    from pauseEach_keeps_paused [OF this] show ?thesis by simp
  next
    case False
    with "2.prems" have "(k, r) \<in> set m" by auto
    from "2.IH" [OF this] snd' show ?thesis by simp
  qed
qed

text \<open>
  C8 (amended). \<open>clearAllSounds\<close> empties the ordered sequence and the metadata table
  and leaves every resolved member's audio element paused; it pauses directly, without a
  fade: no element's volume is changed.
\<close>

theorem clear_pauses_at_once_and_empties:
  "savedSoundIds (clearAllSounds s) = []
 \<and> metadataRef (clearAllSounds s) = Map.empty
 \<and> (\<forall>(k, r) \<in> set (savedSoundsMap s).
       paused (audios (clearAllSounds s) (audio (sounds s r))))
 \<and> (\<forall>a. audio_volume (audios (clearAllSounds s) a) = audio_volume (audios s a))"
  by (auto simp: clearAllSounds_def Let_def pauseEach_pauses)

theorem clear_pauses_at_once_and_empties_witness:
  "savedSoundsMap tunedClip = [(''clip1'', 0)]
 \<and> audio (sounds tunedClip 0) = 0
 \<and> savedSoundIds (clearAllSounds tunedClip) = []
 \<and> metadataRef (clearAllSounds tunedClip) ''clip1'' = None
 \<and> paused (audios (clearAllSounds tunedClip) 0)"
  using clear_pauses_at_once_and_empties [of tunedClip]
  by (simp add: tunedClip_def)

theorem clear_does_not_fade_counterexample:
  "savedSoundsMap tunedClip = [(''clip1'', 0)]
 \<and> audio (sounds tunedClip 0) = 0
 \<and> \<not> paused (audios tunedClip 0)
 \<and> paused (audios (clearAllSounds tunedClip) 0)
 \<and> audio_volume (audios (clearAllSounds tunedClip) 0) = 2 / 5
 \<and> audio_volume (audios (clearAllSounds tunedClip) 0) \<noteq> 0"
  by (simp add: tunedClip_def clearAllSounds_def pause_def saveToStorage_def Let_def)


section \<open>Removing and adding again\<close>

lemma Map_get_delete [simp]: "Map_get (Map_delete m k) k = None"
  by (induction m) (auto simp: Map_get_def Map_delete_def)

lemma Map_get_set [simp]: "Map_get (Map_set m k v) k = Some v"
  by (induction m) (auto simp: Map_get_def)

lemma sortedIds_snoc_neq: "sortedIds (ids @ [x]) \<noteq> sortedIds ids"
proof
  assume "sortedIds (ids @ [x]) = sortedIds ids"
  then have "length (sortedIds (ids @ [x])) = length (sortedIds ids)" by simp
  then show False by (simp add: sortedIds_def)
qed

lemma sortedIds_insert_at: "sortedIds (take n xs @ x # drop n xs) = sortedIds (xs @ [x])"
proof -
  have "mset (take n xs @ x # drop n xs) = mset (take n xs @ drop n xs) + {#x#}"
    by (simp only: mset_append mset.simps) simp
  then have "mset (take n xs @ x # drop n xs) = mset (xs @ [x])"
    by (simp only: append_take_drop_id) simp
  then show ?thesis
    unfolding sortedIds_def by (metis mset_sort sorted_sort properties_for_sort)
qed

lemma removeSound_metadata: "metadataRef (removeSound i s) i = None"
  by (simp add: removeSound_def Let_def)

lemma removeSound_nextSound: "nextSound (removeSound i s) = nextSound s"
  by (simp add: removeSound_def removeSoundFromCachedMap_def Let_def split: option.splits)

lemma removeSound_cache:
  "Map_get (nullish (queryCache (removeSound i s) (sortedIds (savedSoundIds (removeSound i s)))) []) i
     = None"
  by (simp add: removeSound_def removeSoundFromCachedMap_def Let_def nullish_def
      split: option.splits)

lemma addSoundToCachedMap_fresh:
  assumes "Map_get (nullish (queryCache s (sortedIds ids)) []) (sound_id sound) = None"
  shows "Map_get (nullish (queryCache (addSoundToCachedMap sound ids md s)
                     (sortedIds (ids @ [sound_id sound]))) []) (sound_id sound)
           = Some (nextSound s)"
    and "volume (sounds (addSoundToCachedMap sound ids md s) (nextSound s))
           = Some (nullish (meta_volume md) 100)"
    and "audio_volume (audios (addSoundToCachedMap sound ids md s)
            (audio (sounds (addSoundToCachedMap sound ids md s) (nextSound s))))
           = nullish (meta_volume md) 100 / 100"
    and "loop (audios (addSoundToCachedMap sound ids md s)
            (audio (sounds (addSoundToCachedMap sound ids md s) (nextSound s))))
           = nullish (meta_loop md) False"
  using assms sortedIds_snoc_neq [of ids "sound_id sound"]
  by (auto simp: addSoundToCachedMap_def Let_def split_beta nullish_def
      split: option.splits)


lemma removeSound_not_member: "i \<notin> set (savedSoundIds (removeSound i s))"
  by (simp add: removeSound_ids)

lemma addSound_new_unfold:
  assumes "i \<notin> set (savedSoundIds s)"
  shows "\<exists>ids'. sortedIds ids' = sortedIds (savedSoundIds s @ [i]) \<and> i \<in> set ids'
          \<and> addSound i sound index s
             = (addSoundToCachedMap sound (savedSoundIds s)
                  (nullish (metadataRef s i) emptyMetadata) s)\<lparr>savedSoundIds := ids'\<rparr>"
proof (cases "\<exists>n. index = Some n \<and> n \<ge> 0 \<and> n \<le> int (length (savedSoundIds s))")
  case True
  then obtain n where n: "index = Some n" "n \<ge> 0" "n \<le> int (length (savedSoundIds s))"
    by blast
  let ?ids = "take (nat n) (savedSoundIds s) @ i # drop (nat n) (savedSoundIds s)"
  have "sortedIds ?ids = sortedIds (savedSoundIds s @ [i])" by (rule sortedIds_insert_at)
  moreover have "i \<in> set ?ids" by simp
  moreover have "addSound i sound index s
      = (addSoundToCachedMap sound (savedSoundIds s)
           (nullish (metadataRef s i) emptyMetadata) s)\<lparr>savedSoundIds := ?ids\<rparr>"
    using assms n by (simp add: addSound_def Let_def)
  ultimately show ?thesis by blast
next
  case False
  then have "addSound i sound index s
      = (addSoundToCachedMap sound (savedSoundIds s)
           (nullish (metadataRef s i) emptyMetadata) s)\<lparr>savedSoundIds := savedSoundIds s @ [i]\<rparr>"
    using assms by (cases index) (auto simp: addSound_def Let_def)
  moreover have "i \<in> set (savedSoundIds s @ [i])" by simp
  ultimately show ?thesis by blast
qed

text \<open>
  C1 (amended). After \<open>remove(i)\<close> followed by \<open>add(i, hint2)\<close>, with \<open>hint2\<close> the
  clip of id \<open>i\<close>, nothing of the earlier tuning is left: the metadata table has no entry
  for \<open>i\<close>, and the member cached for \<open>i\<close> is a new one with the defaults, volume 100
  and loop off, its element at full volume.
\<close>

theorem readd_after_remove_gets_defaults:
  assumes "sound_id sound = i"
  shows "metadataRef (addSound i sound index (removeSound i s)) i = None
       \<and> i \<in> set (savedSoundIds (addSound i sound index (removeSound i s)))
       \<and> Map_get (savedSoundsMapData (addSound i sound index (removeSound i s))) i
           = Some (nextSound s)
       \<and> volume (sounds (addSound i sound index (removeSound i s)) (nextSound s)) = Some 100
       \<and> audio_volume (audios (addSound i sound index (removeSound i s))
            (audio (sounds (addSound i sound index (removeSound i s)) (nextSound s)))) = 1
       \<and> \<not> loop (audios (addSound i sound index (removeSound i s))
            (audio (sounds (addSound i sound index (removeSound i s)) (nextSound s))))"
proof -
  let ?r = "removeSound i s"
  let ?md = "nullish (metadataRef ?r i) emptyMetadata"
  let ?c = "addSoundToCachedMap sound (savedSoundIds ?r) ?md ?r"
  have md: "?md = emptyMetadata"
    by (simp add: removeSound_metadata nullish_def)
  from addSound_new_unfold [OF removeSound_not_member, of i s sound index]
  obtain ids' where ids': "sortedIds ids' = sortedIds (savedSoundIds ?r @ [i])" "i \<in> set ids'"
    and eq0: "addSound i sound index ?r = ?c\<lparr>savedSoundIds := ids'\<rparr>"
    by blast
  have eq: "addSound i sound index ?r
              = (addSoundToCachedMap sound (savedSoundIds ?r) emptyMetadata ?r)
                  \<lparr>savedSoundIds := ids'\<rparr>"
    using eq0 by (simp only: md)
  have fresh: "Map_get (nullish (queryCache ?r (sortedIds (savedSoundIds ?r))) []) (sound_id sound)
                 = None"
    using assms removeSound_cache by simp
  note f = addSoundToCachedMap_fresh [OF fresh, of ?md, unfolded md removeSound_nextSound]
  have 1: "metadataRef (addSound i sound index ?r) i = None"
    by (simp add: eq removeSound_metadata)
  have 2: "i \<in> set (savedSoundIds (addSound i sound index ?r))"
    by (simp add: eq ids'(2))
  have 3: "Map_get (savedSoundsMapData (addSound i sound index ?r)) i = Some (nextSound s)"
    using f(1) assms by (simp add: eq savedSoundsMapData_def ids'(1))
  have 4: "volume (sounds (addSound i sound index ?r) (nextSound s)) = Some 100"
    using f(2) by (simp add: eq emptyMetadata_def nullish_def)
  have 5: "audio_volume (audios (addSound i sound index ?r)
            (audio (sounds (addSound i sound index ?r) (nextSound s)))) = 1"
    using f(3) by (simp add: eq emptyMetadata_def nullish_def)
  have 6: "\<not> loop (audios (addSound i sound index ?r)
            (audio (sounds (addSound i sound index ?r) (nextSound s))))"
    using f(4) by (simp add: eq emptyMetadata_def nullish_def)
  from 1 2 3 4 5 6 show ?thesis by blast
qed

theorem readd_after_remove_gets_defaults_witness:
  "sound_id rain = ''clip1''
 \<and> metadataRef (addSound ''clip1'' rain None (removeSound ''clip1'' tunedClip)) ''clip1'' = None
 \<and> nextSound tunedClip = 1
 \<and> volume (sounds (addSound ''clip1'' rain None (removeSound ''clip1'' tunedClip)) 1) = Some 100"
  using readd_after_remove_gets_defaults [of rain "''clip1''" None tunedClip]
  by (simp add: rain_def tunedClip_def)

theorem metadata_lost_on_remove_counterexample:
  "''clip1'' \<in> set (savedSoundIds tunedClip)
 \<and> metadataRef tunedClip ''clip1'' = Some \<lparr>meta_volume = Some 40, meta_loop = Some True\<rparr>
 \<and> savedSoundIds readded = [''clip1'']
 \<and> metadataRef readded ''clip1'' = None
 \<and> savedSoundsMap readded = [(''clip1'', 1)]
 \<and> volume (sounds readded 1) = Some 100
 \<and> volume (sounds readded 1) \<noteq> Some 40
 \<and> audio (sounds readded 1) = 0
 \<and> \<not> loop (audios readded 0)"
  by (simp add: readded_def tunedClip_def evals)


section \<open>Volume mixing\<close>

lemma set_audio_volume_twice [simp]:
  "set_audio_volume a x (set_audio_volume a x s) = set_audio_volume a x s"
  by (simp add: set_audio_volume_def)





lemma setSoundVolume_cache: "queryCache (setSoundVolume i v s) = queryCache s"
  by (simp add: setSoundVolume_def Let_def split: option.splits)

lemma setSoundVolume_resolved:
  assumes "rendered s" and "Map_get (savedSoundsMap s) i = Some r"
  shows "sounds (setSoundVolume i v s) = (sounds s)(r := (sounds s r)\<lparr>volume := Some v\<rparr>)"
    and "audios (setSoundVolume i v s)
           = (audios s)(audio (sounds s r) :=
                (audios s (audio (sounds s r)))\<lparr>audio_volume := (v / 100) * (masterVolume s / 100)\<rparr>)"
    and "metadataRef (setSoundVolume i v s) i
           = Some ((nullish (metadataRef s i) emptyMetadata)\<lparr>meta_volume := Some v\<rparr>)"
    and "masterVolume (setSoundVolume i v s) = masterVolume s"
    and "savedSoundsMap (setSoundVolume i v s) = savedSoundsMap s"
proof -
  have c: "queryCache s (sortedIds (savedSoundIds s)) = None
         \<or> queryCache s (sortedIds (savedSoundIds s)) = Some (savedSoundsMap s)"
    using assms(1) by (auto simp: rendered_def split: option.splits)
  show "sounds (setSoundVolume i v s) = (sounds s)(r := (sounds s r)\<lparr>volume := Some v\<rparr>)"
    using c assms(2) by (auto simp: setSoundVolume_def Let_def)
  show "audios (setSoundVolume i v s)
           = (audios s)(audio (sounds s r) :=
                (audios s (audio (sounds s r)))\<lparr>audio_volume := (v / 100) * (masterVolume s / 100)\<rparr>)"
    using c assms(2) by (auto simp: setSoundVolume_def Let_def)
  show "metadataRef (setSoundVolume i v s) i
           = Some ((nullish (metadataRef s i) emptyMetadata)\<lparr>meta_volume := Some v\<rparr>)"
    using c assms(2) by (auto simp: setSoundVolume_def Let_def)
  show "masterVolume (setSoundVolume i v s) = masterVolume s"
    using c assms(2) by (auto simp: setSoundVolume_def Let_def)
  show "savedSoundsMap (setSoundVolume i v s) = savedSoundsMap s"
    using c assms(2) by (auto simp: setSoundVolume_def Let_def)
qed





text \<open>
  The render puts a state into this shape: when the cached map has distinct keys, files
  every sound under its own id and gives every member its own element, the state after
  \<open>useMemo\<close> is rendered and mixed. The two handlers keep it rendered.
\<close>

lemma applyMetadata_frame [simp]:
  "savedSoundIds (applyMetadata k r s) = savedSoundIds s"
  "masterVolume (applyMetadata k r s) = masterVolume s"
  "metadataRef (applyMetadata k r s) = metadataRef s"
  "savedSoundsMap (applyMetadata k r s) = savedSoundsMap s"
  "queryCache (applyMetadata k r s) = queryCache s"
  "localStorage (applyMetadata k r s) = localStorage s"
  "audio (sounds (applyMetadata k r s) r') = audio (sounds s r')"
  "sound_id (sounds (applyMetadata k r s) r') = sound_id (sounds s r')"
  by (simp_all add: applyMetadata_def Let_def split: option.splits)

lemma applyMetadata_other_sound:
  "r' \<noteq> r \<Longrightarrow> sounds (applyMetadata k r s) r' = sounds s r'"
  by (simp add: applyMetadata_def Let_def split: option.splits)

lemma applyMetadata_other_audio:
  "a \<noteq> audio (sounds s r) \<Longrightarrow> audios (applyMetadata k r s) a = audios s a"
  by (simp add: applyMetadata_def Let_def split: option.splits)

lemma applyMetadata_self:
  "volume (sounds (applyMetadata k r s) r) = Some (baseVolumeOf s k r)"
  "audio_volume (audios (applyMetadata k r s) (audio (sounds s r)))
     = (baseVolumeOf s k r / 100) * (masterVolume s / 100)"
  by (simp_all add: applyMetadata_def baseVolumeOf_def Let_def split: option.splits)

lemma applyMetadataEach_frame [simp]:
  "savedSoundIds (applyMetadataEach m s) = savedSoundIds s"
  "masterVolume (applyMetadataEach m s) = masterVolume s"
  "metadataRef (applyMetadataEach m s) = metadataRef s"
  "savedSoundsMap (applyMetadataEach m s) = savedSoundsMap s"
  "queryCache (applyMetadataEach m s) = queryCache s"
  "localStorage (applyMetadataEach m s) = localStorage s"
  "audio (sounds (applyMetadataEach m s) r') = audio (sounds s r')"
  "sound_id (sounds (applyMetadataEach m s) r') = sound_id (sounds s r')"
  by (induction m s rule: applyMetadataEach.induct; simp)+

lemma applyMetadataEach_sound_untouched:
  "r' \<notin> snd ` set m \<Longrightarrow> sounds (applyMetadataEach m s) r' = sounds s r'"
  by (induction m s rule: applyMetadataEach.induct)
     (auto simp: applyMetadata_other_sound)

lemma applyMetadataEach_audio_untouched:
  "a \<notin> (\<lambda>(k, r). audio (sounds s r)) ` set m \<Longrightarrow>
     audios (applyMetadataEach m s) a = audios s a"
  by (induction m s rule: applyMetadataEach.induct)
     (auto simp: applyMetadata_other_audio)

lemma applyMetadataEach_entry:
  assumes "distinct (map (\<lambda>(k, r). audio (sounds s r)) m)" and "(k, r) \<in> set m"
  shows "volume (sounds (applyMetadataEach m s) r) = Some (baseVolumeOf s k r)
       \<and> audio_volume (audios (applyMetadataEach m s) (audio (sounds s r)))
           = (baseVolumeOf s k r / 100) * (masterVolume s / 100)"
  using assms
proof (induction m arbitrary: s)
  case Nil
  then show ?case by simp
next
  case (Cons e m)
  obtain k' r' where e: "e = (k', r')" by (cases e)
  let ?s1 = "applyMetadata k' r' s"
  have d: "distinct (map (\<lambda>(k, r). audio (sounds ?s1 r)) m)"
    using Cons.prems(1) by (simp add: e)
  have fresh: "audio (sounds s r') \<notin> (\<lambda>(k, r). audio (sounds s r)) ` set m"
    using Cons.prems(1) by (auto simp: e)
  show ?case
  proof (cases "(k, r) \<in> set m")
    case True
    with fresh have ne: "r \<noteq> r'" by force
    have "baseVolumeOf ?s1 k r = baseVolumeOf s k r"
      using ne by (simp add: baseVolumeOf_def applyMetadata_other_sound)
    with Cons.IH [OF d True] show ?thesis by (simp add: e)
  next
    case False
    with Cons.prems(2) have same: "k = k'" "r = r'" by (auto simp: e)
    have "r' \<notin> snd ` set m"
    proof
      assume "r' \<in> snd ` set m"
      then obtain k2 where "(k2, r') \<in> set m" by force
      with fresh show False by force
    qed
    then have "sounds (applyMetadataEach m ?s1) r' = sounds ?s1 r'"
      by (rule applyMetadataEach_sound_untouched)
    moreover have "audios (applyMetadataEach m ?s1) (audio (sounds s r'))
                     = audios ?s1 (audio (sounds s r'))"
      using fresh by (intro applyMetadataEach_audio_untouched) simp
    ultimately show ?thesis
      by (simp add: e same applyMetadata_self)
  qed
qed

lemma render_establishes:
  assumes "distinct (map fst (savedSoundsMapData s))"
    and "\<forall>(k, r) \<in> set (savedSoundsMapData s). sound_id (sounds s r) = k"
    and "distinct (map (\<lambda>(k, r). audio (sounds s r)) (savedSoundsMapData s))"
  shows "rendered (useMemo_savedSoundsMap s) \<and> mixed (useMemo_savedSoundsMap s)"
proof
  show "rendered (useMemo_savedSoundsMap s)"
    using assms
    by (auto simp: rendered_def useMemo_savedSoundsMap_def Let_def savedSoundsMapData_def
        nullish_def split: option.splits)
  show "mixed (useMemo_savedSoundsMap s)"
    using applyMetadataEach_entry [OF assms(3)]
    by (auto simp: mixed_def useMemo_savedSoundsMap_def Let_def effectiveVolume_def
        nullish_def)
qed

lemma setMasterVolume_rendered:
  "rendered s \<Longrightarrow> rendered (setMasterVolume vol s)"
  by (simp add: rendered_def setMasterVolume_def Let_def split: option.splits)

lemma setSoundVolume_rendered:
  assumes "rendered s"
  shows "rendered (setSoundVolume i v s)"
proof (cases "Map_get (savedSoundsMap s) i")
  case None
  then show ?thesis using assms by (simp add: setSoundVolume_def)
next
  case (Some r)
  note u = setSoundVolume_resolved [OF assms Some, of v]
  have "audio (sounds (setSoundVolume i v s) r') = audio (sounds s r')"
    and "sound_id (sounds (setSoundVolume i v s) r') = sound_id (sounds s r')" for r'
    by (simp_all add: u)
  then show ?thesis
    using assms
    by (simp add: rendered_def u(5) setSoundVolume_ids setSoundVolume_cache
        split: option.splits)
qed

end
